theory Spec2Isabelle
  imports Main "HOL-Library.Multiset"
begin

section \<open>The users service: \<open>services/api/project/__init__.py\<close>\<close>

text \<open>
  The module is eighteen lines of Python. Its top level reads \<open>DATABASE_URL\<close> from the
  process environment, builds one \<open>Postgres\<close> connection, runs a \<open>CREATE TABLE\<close> and an
  \<open>INSERT\<close> through it, registers the view \<open>index\<close> for the route \<open>/users\<close> and, when
  it is run as a script, calls \<open>app.run(debug=True)\<close>.

  Everything the module does is an effect on the world around it, so the model passes
  that world explicitly: the process environment, the state of the database, and a trace
  of the effects performed so far, in order. An exception is a value \<open>Inl e\<close>.

  The \<open>postgres\<close> and \<open>flask\<close> libraries are not part of the repository. The module is
  therefore modelled over an arbitrary gateway (a record of the three library operations
  it calls); a small reference database further down instantiates it. The call of
  \<open>app.run\<close> is one event, the development server starting; what Flask does inside it
  is not modelled.
\<close>

subsection \<open>Values, errors, effects\<close>

text \<open>Python values as far as \<open>jsonify\<close> can serialise them.\<close>

datatype pyvalue =
    VNone
  | VStr string
  | VInt int
  | VList "pyvalue list"
  | VDict "(string \<times> pyvalue) list"

text \<open>The exceptions of the specification's taxonomy, and the refusal of a missing URL.\<close>

datatype error = ConnectionError | StatementError | MissingURL

text \<open>The observable effects of the module, one event per library call.\<close>

datatype event =
    EvEnvironGet string
  | EvPostgres "string option"
  | EvRun string
  | EvAll string
  | EvAppRun

text \<open>A Flask response: status code and, for a JSON answer, the document.\<close>

datatype response = Response (status: nat) (body: "pyvalue option")

subsection \<open>The world and the gateway\<close>

record 's world =
  environ :: "string \<Rightarrow> string option"
  db :: 's
  trace :: "event list"

text \<open>
  The three operations of the \<open>postgres\<close> library the module calls, over a database state
  \<open>'s\<close> and a connection handle \<open>'c\<close>: the constructor \<open>Postgres(url)\<close>, which connects
  at once; \<open>run(sql)\<close>, which returns nothing; \<open>all(sql)\<close>, which returns the rows.
  Each may raise. A statement that raises leaves the database as it was; a query may,
  for an arbitrary gateway, change it.
\<close>

record ('c, 's) gateway =
  Postgres_init :: "string option \<Rightarrow> 's \<Rightarrow> error + 'c"
  Postgres_run :: "'c \<Rightarrow> string \<Rightarrow> 's \<Rightarrow> error + 's"
  Postgres_all :: "'c \<Rightarrow> string \<Rightarrow> 's \<Rightarrow> (error + pyvalue list) \<times> 's"

text \<open>The module's globals that outlive its top level.\<close>

record 'c globals =
  SQLALCHEMY_DATABASE_URI :: "string option"
  connection :: 'c

definition emit :: "event \<Rightarrow> 's world \<Rightarrow> 's world" where
  "emit ev w = w\<lparr>trace := trace w @ [ev]\<rparr>"

text \<open>\<open>os.environ.get(key)\<close>: \<open>None\<close> when the variable is not set.\<close>

definition os_environ_get :: "string \<Rightarrow> 's world \<Rightarrow> string option \<times> 's world" where
  "os_environ_get key w = (environ w key, emit (EvEnvironGet key) w)"

text \<open>\<open>Postgres(url)\<close>.\<close>

definition Postgres :: "('c, 's) gateway \<Rightarrow> string option \<Rightarrow> 's world \<Rightarrow> (error + 'c) \<times> 's world" where
  "Postgres g url w = (Postgres_init g url (db w), emit (EvPostgres url) w)"

text \<open>\<open>connection.run(sql)\<close>.\<close>

definition connection_run :: "('c, 's) gateway \<Rightarrow> 'c \<Rightarrow> string \<Rightarrow> 's world \<Rightarrow> (error + unit) \<times> 's world" where
  "connection_run g c sql w =
     (case Postgres_run g c sql (db w) of
        Inl e \<Rightarrow> (Inl e, emit (EvRun sql) w)
      | Inr s \<Rightarrow> (Inr (), (emit (EvRun sql) w)\<lparr>db := s\<rparr>))"

text \<open>\<open>connection.all(sql)\<close>.\<close>

definition connection_all :: "('c, 's) gateway \<Rightarrow> 'c \<Rightarrow> string \<Rightarrow> 's world \<Rightarrow> (error + pyvalue list) \<times> 's world" where
  "connection_all g c sql w =
     (case Postgres_all g c sql (db w) of
        (r, s) \<Rightarrow> (r, (emit (EvAll sql) w)\<lparr>db := s\<rparr>))"

subsection \<open>The module\<close>

definition create_stmt :: string where
  "create_stmt = ''CREATE TABLE users (name text)''"

definition insert_stmt :: string where
  "insert_stmt = ''INSERT INTO users VALUES ('maggie simpson')''"

definition select_stmt :: string where
  "select_stmt = ''SELECT * FROM users;''"

text \<open>\<open>jsonify(obj)\<close>: a response with status 200 whose body is the document.\<close>

definition jsonify :: "pyvalue \<Rightarrow> response" where
  "jsonify v = Response 200 (Some v)"

text \<open>
  How the execution of the module's top level ends: an uncaught exception, the module
  loaded (it was imported, \<open>__name__\<close> is not \<open>__main__\<close>), or \<open>app.run\<close> entered.
\<close>

datatype 'c outcome = Crashed error | Imported "'c globals" | Serving "'c globals"

fun is_Crashed :: "'c outcome \<Rightarrow> bool" where
  "is_Crashed (Crashed e) = True"
| "is_Crashed (Imported gl) = False"
| "is_Crashed (Serving gl) = False"

text \<open>
  The top level of \<open>project/__init__.py\<close>, lines 5 to 18, for a given \<open>__name__\<close>.
  No statement is inside a \<open>try\<close>: the first exception ends the execution. Building
  the \<open>Flask\<close> object and registering the view touch nothing outside the process and
  leave no event.
\<close>

definition project_init :: "('c, 's) gateway \<Rightarrow> string \<Rightarrow> 's world \<Rightarrow> 'c outcome \<times> 's world" where
  "project_init g dunder_name w0 =
     (case os_environ_get ''DATABASE_URL'' w0 of
        (uri, w1) \<Rightarrow>
     (case Postgres g uri w1 of
        (Inl e, w2) \<Rightarrow> (Crashed e, w2)
      | (Inr c, w2) \<Rightarrow>
     (case connection_run g c create_stmt w2 of
        (Inl e, w3) \<Rightarrow> (Crashed e, w3)
      | (Inr u, w3) \<Rightarrow>
     (case connection_run g c insert_stmt w3 of
        (Inl e, w4) \<Rightarrow> (Crashed e, w4)
      | (Inr u', w4) \<Rightarrow>
          if dunder_name = ''__main__''
          then (Serving \<lparr>SQLALCHEMY_DATABASE_URI = uri, connection = c\<rparr>, emit EvAppRun w4)
          else (Imported \<lparr>SQLALCHEMY_DATABASE_URI = uri, connection = c\<rparr>, w4)))))"

text \<open>The view \<open>index\<close>, lines 12 to 15. An exception of \<open>connection.all\<close> leaves the view.\<close>

definition index :: "('c, 's) gateway \<Rightarrow> 'c globals \<Rightarrow> 's world \<Rightarrow> (error + response) \<times> 's world" where
  "index g gl w =
     (case connection_all g (connection gl) select_stmt w of
        (Inl e, w1) \<Rightarrow> (Inl e, w1)
      | (Inr users, w1) \<Rightarrow> (Inr (jsonify (VDict [(''users'', VList users)])), w1))"

text \<open>
  Flask's dispatch of a GET request, as the decorator of line 12 sets it up: the view
  registered for the path is called; an exception that leaves it is answered with status
  500 and no document; a path with no view is answered with status 404.
\<close>

definition flask_get :: "('c, 's) gateway \<Rightarrow> 'c globals \<Rightarrow> string \<Rightarrow> 's world \<Rightarrow> response \<times> 's world" where
  "flask_get g gl path w =
     (if path = ''/users''
      then (case index g gl w of
              (Inl e, w1) \<Rightarrow> (Response 500 None, w1)
            | (Inr resp, w1) \<Rightarrow> (resp, w1))
      else (Response 404 None, w))"

text \<open>The world after a sequence of GET requests, given by their paths.\<close>

fun after_requests :: "('c, 's) gateway \<Rightarrow> 'c globals \<Rightarrow> string list \<Rightarrow> 's world \<Rightarrow> 's world" where
  "after_requests g gl [] w = w"
| "after_requests g gl (p # ps) w = after_requests g gl ps (snd (flask_get g gl p w))"

text \<open>The events a computation added to the trace.\<close>

definition new_events :: "'s world \<Rightarrow> 's world \<Rightarrow> event list" where
  "new_events w w' = drop (length (trace w)) (trace w')"

subsection \<open>A reference database\<close>

text \<open>
  Modelled from the spec: the state of the database server, which is not part of the
  repository. It says which connection strings the server accepts, and holds the one
  table \<open>users\<close> with its single text column \<open>name\<close>, absent until it is created.
\<close>

record pgstore =
  accepts :: "string \<Rightarrow> bool"
  users_table :: "string list option"

datatype conn = Conn string

definition seed_name :: string where
  "seed_name = ''maggie simpson''"

text \<open>
  Modelled from the spec: the gateway's constructor. A missing connection string is
  refused, and so is one the server does not accept.
\<close>

definition pg_init :: "string option \<Rightarrow> pgstore \<Rightarrow> error + conn" where
  "pg_init url s =
     (case url of
        None \<Rightarrow> Inl MissingURL
      | Some u \<Rightarrow> if accepts s u then Inr (Conn u) else Inl ConnectionError)"

text \<open>
  Modelled from the spec: the gateway's \<open>run\<close>. Only the two statements the module issues
  are understood: \<open>CREATE TABLE\<close> fails when the table exists, \<open>INSERT\<close> appends the
  seed row and fails when the table does not exist.
\<close>

definition pg_run :: "conn \<Rightarrow> string \<Rightarrow> pgstore \<Rightarrow> error + pgstore" where
  "pg_run c sql s =
     (if sql = create_stmt then
        (case users_table s of
           None \<Rightarrow> Inr (s\<lparr>users_table := Some []\<rparr>)
         | Some rows \<Rightarrow> Inl StatementError)
      else if sql = insert_stmt then
        (case users_table s of
           None \<Rightarrow> Inl StatementError
         | Some rows \<Rightarrow> Inr (s\<lparr>users_table := Some (rows @ [seed_name])\<rparr>))
      else Inl StatementError)"

text \<open>
  Modelled from the spec: the gateway's \<open>all\<close>. Only the module's \<open>SELECT\<close> is
  understood: it returns every row, in insertion order, and changes nothing. How a row
  is handed to Python is the parameter \<open>back_as\<close>.
\<close>

definition pg_all :: "(string \<Rightarrow> pyvalue) \<Rightarrow> conn \<Rightarrow> string \<Rightarrow> pgstore \<Rightarrow> (error + pyvalue list) \<times> pgstore" where
  "pg_all back_as c sql s =
     (if sql = select_stmt then
        (case users_table s of
           None \<Rightarrow> (Inl StatementError, s)
         | Some rows \<Rightarrow> (Inr (map back_as rows), s))
      else (Inl StatementError, s))"

text \<open>Modelled from the spec: the three together, as a gateway.\<close>

definition pg :: "(string \<Rightarrow> pyvalue) \<Rightarrow> (conn, pgstore) gateway" where
  "pg back_as = \<lparr>Postgres_init = pg_init, Postgres_run = pg_run, Postgres_all = pg_all back_as\<rparr>"

text \<open>
  A gateway that differs from the one above in its constructor alone: given no connection
  string it connects as with the empty one, that is with the client library's defaults,
  and raises only when the server does not accept those.
\<close>

definition pg_init_defaults :: "string option \<Rightarrow> pgstore \<Rightarrow> error + conn" where
  "pg_init_defaults url s = pg_init (Some (case url of None \<Rightarrow> [] | Some u \<Rightarrow> u)) s"

definition pg_defaults :: "(string \<Rightarrow> pyvalue) \<Rightarrow> (conn, pgstore) gateway" where
  "pg_defaults back_as = (pg back_as)\<lparr>Postgres_init := pg_init_defaults\<rparr>"

text \<open>A process environment that sets nothing, and a server that accepts every client.\<close>

definition unset_world :: "pgstore world" where
  "unset_world =
     \<lparr>environ = Map.empty,
      db = \<lparr>accepts = (\<lambda>u. True), users_table = None\<rparr>,
      trace = []\<rparr>"

text \<open>A row as an object with the column's name as its key, and as the bare column value.\<close>

definition as_record :: "string \<Rightarrow> pyvalue" where
  "as_record n = VDict [(''name'', VStr n)]"

definition as_value :: "string \<Rightarrow> pyvalue" where
  "as_value n = VStr n"

text \<open>The rows of the \<open>users\<close> table; none while the table does not exist.\<close>

definition user_rows :: "pgstore \<Rightarrow> string list" where
  "user_rows s = (case users_table s of None \<Rightarrow> [] | Some rows \<Rightarrow> rows)"

text \<open>A process environment that sets \<open>DATABASE_URL\<close>, and a server with no table yet.\<close>

definition example_url :: string where
  "example_url = ''postgresql://postgres@db:5432/postgres''"

definition fresh_world :: "pgstore world" where
  "fresh_world =
     \<lparr>environ = [''DATABASE_URL'' \<mapsto> example_url],
      db = \<lparr>accepts = (\<lambda>u. u = example_url), users_table = None\<rparr>,
      trace = []\<rparr>"

definition example_globals :: "conn globals" where
  "example_globals = \<lparr>SQLALCHEMY_DATABASE_URI = Some example_url, connection = Conn example_url\<rparr>"

subsection \<open>The properties the specification states\<close>

text \<open>An object with exactly one key, \<open>name\<close>, whose value is a string.\<close>

fun is_name_object :: "pyvalue \<Rightarrow> bool" where
  "is_name_object (VDict [(k, VStr n)]) = (k = ''name'')"
| "is_name_object v = False"

text \<open>An object with exactly one key, \<open>users\<close>, whose value is a sequence of such objects.\<close>

fun is_users_document :: "pyvalue \<Rightarrow> bool" where
  "is_users_document (VDict [(k, VList xs)]) = (k = ''users'' \<and> list_all is_name_object xs)"
| "is_users_document v = False"

text \<open>The records a response lists, as a multiset: their order does not count.\<close>

fun records :: "response \<Rightarrow> pyvalue multiset" where
  "records (Response code (Some (VDict [(k, VList xs)]))) = mset xs"
| "records r = {#}"

fun is_environ_read :: "event \<Rightarrow> bool" where
  "is_environ_read (EvEnvironGet key) = True"
| "is_environ_read ev = False"

section \<open>Basic facts\<close>

lemma stmts_distinct:
  "create_stmt \<noteq> insert_stmt" "insert_stmt \<noteq> create_stmt"
  "select_stmt \<noteq> create_stmt" "select_stmt \<noteq> insert_stmt"
  by (simp_all add: create_stmt_def insert_stmt_def select_stmt_def)

lemma pg_run_create:
  "pg_run c create_stmt s =
     (case users_table s of None \<Rightarrow> Inr (s\<lparr>users_table := Some []\<rparr>) | Some rows \<Rightarrow> Inl StatementError)"
  by (simp add: pg_run_def)

lemma pg_run_insert:
  "pg_run c insert_stmt s =
     (case users_table s of None \<Rightarrow> Inl StatementError
      | Some rows \<Rightarrow> Inr (s\<lparr>users_table := Some (rows @ [seed_name])\<rparr>))"
  by (simp add: pg_run_def stmts_distinct)

lemma pg_all_select:
  "pg_all back_as c select_stmt s =
     (case users_table s of None \<Rightarrow> (Inl StatementError, s) | Some rows \<Rightarrow> (Inr (map back_as rows), s))"
  by (simp add: pg_all_def)

lemma pg_fields [simp]:
  "Postgres_init (pg back_as) = pg_init"
  "Postgres_run (pg back_as) = pg_run"
  "Postgres_all (pg back_as) = pg_all back_as"
  by (simp_all add: pg_def)

text \<open>The four ways the top level can end, by what the gateway answers.\<close>

lemma project_init_no_connection:
  assumes "Postgres_init g (environ w ''DATABASE_URL'') (db w) = Inl e"
  shows "project_init g nm w =
     (Crashed e, w\<lparr>trace := trace w @
        [EvEnvironGet ''DATABASE_URL'', EvPostgres (environ w ''DATABASE_URL'')]\<rparr>)"
  using assms
  by (simp add: project_init_def os_environ_get_def Postgres_def emit_def)

lemma project_init_create_fails:
  assumes "Postgres_init g (environ w ''DATABASE_URL'') (db w) = Inr c"
    and "Postgres_run g c create_stmt (db w) = Inl e"
  shows "project_init g nm w =
     (Crashed e, w\<lparr>trace := trace w @
        [EvEnvironGet ''DATABASE_URL'', EvPostgres (environ w ''DATABASE_URL''),
         EvRun create_stmt]\<rparr>)"
  using assms
  by (simp add: project_init_def os_environ_get_def Postgres_def connection_run_def emit_def)

lemma project_init_insert_fails:
  assumes "Postgres_init g (environ w ''DATABASE_URL'') (db w) = Inr c"
    and "Postgres_run g c create_stmt (db w) = Inr s1"
    and "Postgres_run g c insert_stmt s1 = Inl e"
  shows "project_init g nm w =
     (Crashed e, w\<lparr>db := s1, trace := trace w @
        [EvEnvironGet ''DATABASE_URL'', EvPostgres (environ w ''DATABASE_URL''),
         EvRun create_stmt, EvRun insert_stmt]\<rparr>)"
  using assms
  by (simp add: project_init_def os_environ_get_def Postgres_def connection_run_def emit_def)

lemma project_init_succeeds:
  assumes "Postgres_init g (environ w ''DATABASE_URL'') (db w) = Inr c"
    and "Postgres_run g c create_stmt (db w) = Inr s1"
    and "Postgres_run g c insert_stmt s1 = Inr s2"
  shows "project_init g nm w =
     (if nm = ''__main__''
      then (Serving \<lparr>SQLALCHEMY_DATABASE_URI = environ w ''DATABASE_URL'', connection = c\<rparr>,
            w\<lparr>db := s2, trace := trace w @
              [EvEnvironGet ''DATABASE_URL'', EvPostgres (environ w ''DATABASE_URL''),
               EvRun create_stmt, EvRun insert_stmt, EvAppRun]\<rparr>)
      else (Imported \<lparr>SQLALCHEMY_DATABASE_URI = environ w ''DATABASE_URL'', connection = c\<rparr>,
            w\<lparr>db := s2, trace := trace w @
              [EvEnvironGet ''DATABASE_URL'', EvPostgres (environ w ''DATABASE_URL''),
               EvRun create_stmt, EvRun insert_stmt]\<rparr>))"
  using assms
  by (simp add: project_init_def os_environ_get_def Postgres_def connection_run_def emit_def)

text \<open>Every execution of the top level is one of the four.\<close>

lemma project_init_cases:
  obtains
    (no_connection) e where "Postgres_init g (environ w ''DATABASE_URL'') (db w) = Inl e"
  | (create_fails) c e where "Postgres_init g (environ w ''DATABASE_URL'') (db w) = Inr c"
      "Postgres_run g c create_stmt (db w) = Inl e"
  | (insert_fails) c s1 e where "Postgres_init g (environ w ''DATABASE_URL'') (db w) = Inr c"
      "Postgres_run g c create_stmt (db w) = Inr s1" "Postgres_run g c insert_stmt s1 = Inl e"
  | (succeeds) c s1 s2 where "Postgres_init g (environ w ''DATABASE_URL'') (db w) = Inr c"
      "Postgres_run g c create_stmt (db w) = Inr s1" "Postgres_run g c insert_stmt s1 = Inr s2"
proof (cases "Postgres_init g (environ w ''DATABASE_URL'') (db w)")
  case (Inl e)
  then show ?thesis by (rule no_connection)
next
  case c: (Inr c)
  show ?thesis
  proof (cases "Postgres_run g c create_stmt (db w)")
    case (Inl e)
    with c show ?thesis by (rule create_fails)
  next
    case s1: (Inr s1)
    show ?thesis
    proof (cases "Postgres_run g c insert_stmt s1")
      case (Inl e)
      with c s1 show ?thesis by (rule insert_fails)
    next
      case (Inr s2)
      with c s1 show ?thesis by (rule succeeds)
    qed
  qed
qed

text \<open>The view and the dispatch, by what the query answers.\<close>

lemma index_ok:
  assumes "Postgres_all g (connection gl) select_stmt (db w) = (Inr users, s)"
  shows "index g gl w =
     (Inr (Response 200 (Some (VDict [(''users'', VList users)]))),
      w\<lparr>db := s, trace := trace w @ [EvAll select_stmt]\<rparr>)"
  using assms by (simp add: index_def connection_all_def emit_def jsonify_def)

lemma index_raises:
  assumes "Postgres_all g (connection gl) select_stmt (db w) = (Inl e, s)"
  shows "index g gl w = (Inl e, w\<lparr>db := s, trace := trace w @ [EvAll select_stmt]\<rparr>)"
  using assms by (simp add: index_def connection_all_def emit_def)

lemma flask_get_users_ok:
  assumes "Postgres_all g (connection gl) select_stmt (db w) = (Inr users, s)"
  shows "flask_get g gl ''/users'' w =
     (Response 200 (Some (VDict [(''users'', VList users)])),
      w\<lparr>db := s, trace := trace w @ [EvAll select_stmt]\<rparr>)"
  using index_ok [OF assms] by (simp add: flask_get_def)

lemma flask_get_users_raises:
  assumes "Postgres_all g (connection gl) select_stmt (db w) = (Inl e, s)"
  shows "flask_get g gl ''/users'' w =
     (Response 500 None, w\<lparr>db := s, trace := trace w @ [EvAll select_stmt]\<rparr>)"
  using index_raises [OF assms] by (simp add: flask_get_def)

lemma flask_get_other:
  assumes "path \<noteq> ''/users''"
  shows "flask_get g gl path w = (Response 404 None, w)"
  using assms by (simp add: flask_get_def)

lemma new_events_append [simp]:
  "new_events w (w'\<lparr>trace := trace w @ evs\<rparr>) = evs"
  by (simp add: new_events_def)

text \<open>The reference database: what a start and a request do to it.\<close>

lemma pg_flask_get_db:
  "db (snd (flask_get (pg back_as) gl path w)) = db w"
  by (simp add: flask_get_def index_def connection_all_def emit_def pg_all_def
      split: option.splits)

lemma pg_after_requests_db:
  "db (after_requests (pg back_as) gl paths w) = db w"
  by (induction paths arbitrary: w) (simp_all add: pg_flask_get_db)

lemma pg_start_needs_no_table:
  assumes "\<not> is_Crashed (fst (project_init (pg back_as) nm w))"
  shows "users_table (db w) = None"
proof (cases "users_table (db w)")
  case None
  then show ?thesis .
next
  case (Some rows)
  have "is_Crashed (fst (project_init (pg back_as) nm w))"
  proof (cases "pg_init (environ w ''DATABASE_URL'') (db w)")
    case (Inl e)
    then show ?thesis by (simp add: project_init_no_connection)
  next
    case (Inr c)
    moreover have "pg_run c create_stmt (db w) = Inl StatementError"
      using Some by (simp add: pg_run_create)
    ultimately show ?thesis by (simp add: project_init_create_fails)
  qed
  with assms show ?thesis by simp
qed

lemma pg_start_db:
  "db (snd (project_init (pg back_as) nm w)) =
     (if is_Crashed (fst (project_init (pg back_as) nm w)) then db w
      else (db w)\<lparr>users_table := Some [seed_name]\<rparr>)"
proof (cases rule: project_init_cases [of "pg back_as" w])
  case (no_connection e)
  then show ?thesis by (simp add: project_init_no_connection)
next
  case (create_fails c e)
  then show ?thesis by (simp add: project_init_create_fails)
next
  case (insert_fails c s1 e)
  then show ?thesis
    by (simp add: pg_run_create pg_run_insert split: option.splits) auto
next
  case (succeeds c s1 s2)
  then have "s2 = (db w)\<lparr>users_table := Some [seed_name]\<rparr>"
    by (auto simp: pg_run_create pg_run_insert split: option.splits)
  with succeeds show ?thesis by (simp add: project_init_succeeds)
qed

lemma pg_start_globals:
  assumes "fst (project_init (pg back_as) nm w) = Serving gl
         \<or> fst (project_init (pg back_as) nm w) = Imported gl"
  shows "\<not> is_Crashed (fst (project_init (pg back_as) nm w))"
  using assms by auto

lemma fresh_world_start:
  "project_init (pg back_as) ''__main__'' fresh_world =
     (Serving example_globals,
      \<lparr>environ = [''DATABASE_URL'' \<mapsto> example_url],
       db = \<lparr>accepts = (\<lambda>u. u = example_url), users_table = Some [seed_name]\<rparr>,
       trace = [EvEnvironGet ''DATABASE_URL'', EvPostgres (Some example_url),
                EvRun create_stmt, EvRun insert_stmt, EvAppRun]\<rparr>)"
proof -
  have "Postgres_init (pg back_as) (environ fresh_world ''DATABASE_URL'') (db fresh_world)
      = Inr (Conn example_url)"
    by (simp add: fresh_world_def pg_init_def)
  moreover have "Postgres_run (pg back_as) (Conn example_url) create_stmt (db fresh_world)
      = Inr \<lparr>accepts = (\<lambda>u. u = example_url), users_table = Some []\<rparr>"
    by (simp add: fresh_world_def pg_run_create)
  moreover have "Postgres_run (pg back_as) (Conn example_url) insert_stmt
        \<lparr>accepts = (\<lambda>u. u = example_url), users_table = Some []\<rparr>
      = Inr \<lparr>accepts = (\<lambda>u. u = example_url), users_table = Some [seed_name]\<rparr>"
    by (simp add: pg_run_insert)
  ultimately show ?thesis
    by (simp add: project_init_succeeds) (simp add: fresh_world_def example_globals_def)
qed

text \<open>What a request adds to the trace, and what its answer depends on.\<close>

lemma flask_get_trace:
  "trace (snd (flask_get g gl path w)) =
     trace w @ (if path = ''/users'' then [EvAll select_stmt] else [])"
  by (simp add: flask_get_def index_def connection_all_def emit_def
      split: prod.splits sum.splits)

lemma flask_get_environ:
  "environ (snd (flask_get g gl path w)) = environ w"
  by (simp add: flask_get_def index_def connection_all_def emit_def
      split: prod.splits sum.splits)

lemma flask_get_same_db:
  assumes "db w' = db w"
  shows "fst (flask_get g gl path w') = fst (flask_get g gl path w)"
  using assms
  by (simp add: flask_get_def index_def connection_all_def split: prod.splits sum.splits)

lemma after_requests_users_trace:
  "trace (after_requests g gl (replicate n ''/users'') w) =
     trace w @ replicate n (EvAll select_stmt)"
proof (induction n arbitrary: w)
  case 0
  show ?case by simp
next
  case (Suc n)
  have "trace (after_requests g gl (replicate (Suc n) ''/users'') w)
      = trace (snd (flask_get g gl ''/users'' w)) @ replicate n (EvAll select_stmt)"
    by (simp add: Suc.IH)
  also have "\<dots> = trace w @ replicate (Suc n) (EvAll select_stmt)"
    by (simp add: flask_get_trace)
  finally show ?case .
qed

lemma project_init_trace:
  "\<exists>evs. trace (snd (project_init g nm w)) = trace w @ EvEnvironGet ''DATABASE_URL'' # evs
        \<and> filter is_environ_read evs = []"
proof (cases rule: project_init_cases [of g w])
  case (no_connection e)
  then show ?thesis by (simp add: project_init_no_connection)
next
  case (create_fails c e)
  then show ?thesis by (simp add: project_init_create_fails)
next
  case (insert_fails c s1 e)
  then show ?thesis by (simp add: project_init_insert_fails)
next
  case (succeeds c s1 s2)
  then show ?thesis by (simp add: project_init_succeeds)
qed

section \<open>The claims\<close>

subsection \<open>C1: the shape of the response\<close>

text \<open>
  C1, as the code has it. For every request to \<open>GET /users\<close> whose query succeeds, the
  response has status 200 and its body is an object with exactly one key, \<open>users\<close>,
  whose value is the sequence \<open>connection.all\<close> returned, element for element: the view
  maps nothing. So the body has the shape of the specification (every element an object
  with the single key \<open>name\<close> and a string value) exactly when the gateway hands the
  rows over in that shape.
\<close>

theorem users_response_shape:
  assumes "Postgres_all g (connection gl) select_stmt (db w) = (Inr users, s)"
  shows "fst (index g gl w) = Inr (Response 200 (Some (VDict [(''users'', VList users)])))
       \<and> fst (flask_get g gl ''/users'' w) = Response 200 (Some (VDict [(''users'', VList users)]))
       \<and> is_users_document (VDict [(''users'', VList users)]) = list_all is_name_object users"
  using index_ok [OF assms] flask_get_users_ok [OF assms] by simp

text \<open>With a gateway that returns rows as such objects, after a start on the fresh database.\<close>

theorem users_response_shape_witness:
  "Postgres_all (pg as_record) (connection example_globals) select_stmt
       (db (snd (project_init (pg as_record) ''__main__'' fresh_world)))
     = (Inr [VDict [(''name'', VStr ''maggie simpson'')]],
        db (snd (project_init (pg as_record) ''__main__'' fresh_world)))
   \<and> fst (flask_get (pg as_record) example_globals ''/users''
         (snd (project_init (pg as_record) ''__main__'' fresh_world)))
     = Response 200 (Some (VDict [(''users'', VList [VDict [(''name'', VStr ''maggie simpson'')]])]))
   \<and> is_users_document (VDict [(''users'', VList [VDict [(''name'', VStr ''maggie simpson'')]])])"
proof -
  let ?w = "snd (project_init (pg as_record) ''__main__'' fresh_world)"
  have q: "Postgres_all (pg as_record) (connection example_globals) select_stmt (db ?w)
      = (Inr [VDict [(''name'', VStr ''maggie simpson'')]], db ?w)"
    by (simp add: fresh_world_start pg_all_select as_record_def seed_name_def)
  from users_response_shape [OF q] q show ?thesis by simp
qed

text \<open>
  C1 as stated fails: a gateway that returns the rows of a one-column query as bare
  values makes the view answer \<open>{"users": ["maggie simpson"]}\<close>, whose element is a
  string and not an object with a key \<open>name\<close>.
\<close>

theorem users_response_shape_counterexample:
  "fst (project_init (pg as_value) ''__main__'' fresh_world) = Serving example_globals
   \<and> fst (flask_get (pg as_value) example_globals ''/users''
         (snd (project_init (pg as_value) ''__main__'' fresh_world)))
     = Response 200 (Some (VDict [(''users'', VList [VStr ''maggie simpson''])]))
   \<and> \<not> is_users_document (VDict [(''users'', VList [VStr ''maggie simpson''])])"
proof -
  let ?w = "snd (project_init (pg as_value) ''__main__'' fresh_world)"
  have "Postgres_all (pg as_value) (connection example_globals) select_stmt (db ?w)
      = (Inr [VStr ''maggie simpson''], db ?w)"
    by (simp add: fresh_world_start pg_all_select as_value_def seed_name_def)
  from flask_get_users_ok [OF this] show ?thesis
    by (simp add: fresh_world_start)
qed

subsection \<open>C2: the seed row is visible\<close>

text \<open>
  C2. On the reference database, after a start that did not fail (so its seed insert
  succeeded), and after any sequence of further requests, the response to
  \<open>GET /users\<close> has status 200 and lists the rows of the table, one of which has the
  name \<open>maggie simpson\<close>.
\<close>

theorem seed_visible:
  assumes "fst (project_init (pg back_as) nm w) = Serving gl
         \<or> fst (project_init (pg back_as) nm w) = Imported gl"
  shows "\<exists>names.
           fst (flask_get (pg back_as) gl ''/users''
                  (after_requests (pg back_as) gl paths (snd (project_init (pg back_as) nm w))))
             = Response 200 (Some (VDict [(''users'', VList (map back_as names))]))
         \<and> ''maggie simpson'' \<in> set names"
proof -
  let ?w1 = "snd (project_init (pg back_as) nm w)"
  let ?w2 = "after_requests (pg back_as) gl paths ?w1"
  have "\<not> is_Crashed (fst (project_init (pg back_as) nm w))"
    using assms by (rule pg_start_globals)
  then have "db ?w1 = (db w)\<lparr>users_table := Some [seed_name]\<rparr>"
    by (simp add: pg_start_db)
  then have "users_table (db ?w2) = Some [seed_name]"
    by (simp add: pg_after_requests_db)
  then have "Postgres_all (pg back_as) (connection gl) select_stmt (db ?w2)
      = (Inr (map back_as [seed_name]), db ?w2)"
    by (simp add: pg_all_select)
  from flask_get_users_ok [OF this]
  have "fst (flask_get (pg back_as) gl ''/users'' ?w2)
      = Response 200 (Some (VDict [(''users'', VList (map back_as [seed_name]))]))"
    by simp
  moreover have "''maggie simpson'' \<in> set [seed_name]"
    by (simp add: seed_name_def)
  ultimately show ?thesis by blast
qed

theorem seed_visible_witness:
  "fst (project_init (pg as_record) ''__main__'' fresh_world) = Serving example_globals
   \<and> (\<exists>names.
        fst (flask_get (pg as_record) example_globals ''/users''
               (after_requests (pg as_record) example_globals [''/users'', ''/'', ''/users'']
                  (snd (project_init (pg as_record) ''__main__'' fresh_world))))
          = Response 200 (Some (VDict [(''users'', VList (map as_record names))]))
      \<and> ''maggie simpson'' \<in> set names)"
proof -
  have s: "fst (project_init (pg as_record) ''__main__'' fresh_world) = Serving example_globals"
    by (simp add: fresh_world_start)
  then have "fst (project_init (pg as_record) ''__main__'' fresh_world) = Serving example_globals
         \<or> fst (project_init (pg as_record) ''__main__'' fresh_world) = Imported example_globals"
    by simp
  from seed_visible [OF this, of "[''/users'', ''/'', ''/users'']"] s show ?thesis
    by simp
qed

subsection \<open>C3: the order of the start\<close>

text \<open>
  C3. A start that does not fail performs, once each and in this order: the read of
  \<open>DATABASE_URL\<close>, the construction of the connection from the value read, the
  \<open>CREATE TABLE\<close>, the \<open>INSERT\<close>, and (when the module is run as a script) the call of
  \<open>app.run\<close>. A request repeats none of them: a request to \<open>/users\<close> performs the one
  query, a request to any other path performs nothing.
\<close>

theorem startup_order:
  assumes "\<not> is_Crashed (fst (project_init g nm w))"
  shows "new_events w (snd (project_init g nm w)) =
           [EvEnvironGet ''DATABASE_URL'', EvPostgres (environ w ''DATABASE_URL''),
            EvRun ''CREATE TABLE users (name text)'',
            EvRun ''INSERT INTO users VALUES ('maggie simpson')'']
           @ (if nm = ''__main__'' then [EvAppRun] else [])
       \<and> new_events w' (snd (flask_get g gl path w')) =
           (if path = ''/users'' then [EvAll ''SELECT * FROM users;''] else [])"
proof -
  have start: "new_events w (snd (project_init g nm w)) =
           [EvEnvironGet ''DATABASE_URL'', EvPostgres (environ w ''DATABASE_URL''),
            EvRun create_stmt, EvRun insert_stmt]
           @ (if nm = ''__main__'' then [EvAppRun] else [])"
  proof (cases rule: project_init_cases [of g w])
    case (no_connection e)
    with assms show ?thesis by (simp add: project_init_no_connection)
  next
    case (create_fails c e)
    with assms show ?thesis by (simp add: project_init_create_fails)
  next
    case (insert_fails c s1 e)
    with assms show ?thesis by (simp add: project_init_insert_fails)
  next
    case (succeeds c s1 s2)
    then show ?thesis by (simp add: project_init_succeeds)
  qed
  have request: "new_events w' (snd (flask_get g gl path w')) =
           (if path = ''/users'' then [EvAll select_stmt] else [])"
  proof (cases "path = ''/users''")
    case False
    then show ?thesis by (simp add: flask_get_other new_events_def)
  next
    case True
    obtain r s where q: "Postgres_all g (connection gl) select_stmt (db w') = (r, s)"
      by (cases "Postgres_all g (connection gl) select_stmt (db w')")
    show ?thesis
    proof (cases r)
      case (Inl e)
      with q True show ?thesis by (simp add: flask_get_users_raises)
    next
      case (Inr users)
      with q True show ?thesis by (simp add: flask_get_users_ok)
    qed
  qed
  from start request show ?thesis
    by (simp add: create_stmt_def insert_stmt_def select_stmt_def)
qed

theorem startup_order_witness:
  "\<not> is_Crashed (fst (project_init (pg as_record) ''__main__'' fresh_world))
   \<and> trace (snd (project_init (pg as_record) ''__main__'' fresh_world)) =
       [EvEnvironGet ''DATABASE_URL'',
        EvPostgres (Some ''postgresql://postgres@db:5432/postgres''),
        EvRun ''CREATE TABLE users (name text)'',
        EvRun ''INSERT INTO users VALUES ('maggie simpson')'',
        EvAppRun]
   \<and> new_events (snd (project_init (pg as_record) ''__main__'' fresh_world))
        (snd (flask_get (pg as_record) example_globals ''/users''
               (snd (project_init (pg as_record) ''__main__'' fresh_world))))
     = [EvAll ''SELECT * FROM users;'']"
proof -
  have ok: "\<not> is_Crashed (fst (project_init (pg as_record) ''__main__'' fresh_world))"
    by (simp add: fresh_world_start)
  have env: "environ fresh_world ''DATABASE_URL'' = Some example_url"
    by (simp add: fresh_world_def)
  have tr: "new_events fresh_world w' = trace w'" for w' :: "pgstore world"
    by (simp add: new_events_def fresh_world_def)
  from startup_order [OF ok, of "snd (project_init (pg as_record) ''__main__'' fresh_world)"
      example_globals "''/users''"] ok
  show ?thesis
    by (simp add: tr env example_url_def)
qed

subsection \<open>C4: no serving without a database\<close>

text \<open>
  C4, as the code has it. The module does not test the value it read: it hands it to
  \<open>Postgres(...)\<close>, also when it is \<open>None\<close>. For every gateway: if the constructor
  raises on the value read from \<open>DATABASE_URL\<close> (as it does when the database is
  unreachable, and for an absent variable when the gateway refuses \<open>None\<close>), the start
  ends with that exception right after the constructor; no statement is run, the
  database is as it was, and \<open>app.run\<close> is never called.
\<close>

theorem startup_dependency:
  assumes "Postgres_init g (environ w ''DATABASE_URL'') (db w) = Inl e"
  shows "fst (project_init g nm w) = Crashed e
       \<and> new_events w (snd (project_init g nm w)) =
           [EvEnvironGet ''DATABASE_URL'', EvPostgres (environ w ''DATABASE_URL'')]
       \<and> EvAppRun \<notin> set (new_events w (snd (project_init g nm w)))
       \<and> db (snd (project_init g nm w)) = db w"
  using assms by (simp add: project_init_no_connection)

text \<open>
  On the reference database: the variable set to a URL the server does not accept, and
  the variable not set, which that gateway refuses.
\<close>

theorem startup_dependency_witness:
  "Postgres_init (pg as_record)
       (environ (fresh_world\<lparr>environ := [''DATABASE_URL'' \<mapsto> ''postgresql://nowhere'']\<rparr>)
          ''DATABASE_URL'')
       (db (fresh_world\<lparr>environ := [''DATABASE_URL'' \<mapsto> ''postgresql://nowhere'']\<rparr>))
     = Inl ConnectionError
   \<and> fst (project_init (pg as_record) ''__main__''
        (fresh_world\<lparr>environ := [''DATABASE_URL'' \<mapsto> ''postgresql://nowhere'']\<rparr>))
     = Crashed ConnectionError
   \<and> trace (snd (project_init (pg as_record) ''__main__''
        (fresh_world\<lparr>environ := [''DATABASE_URL'' \<mapsto> ''postgresql://nowhere'']\<rparr>)))
     = [EvEnvironGet ''DATABASE_URL'', EvPostgres (Some ''postgresql://nowhere'')]
   \<and> fst (project_init (pg as_record) ''__main__'' (fresh_world\<lparr>environ := Map.empty\<rparr>))
     = Crashed MissingURL
   \<and> trace (snd (project_init (pg as_record) ''__main__'' (fresh_world\<lparr>environ := Map.empty\<rparr>)))
     = [EvEnvironGet ''DATABASE_URL'', EvPostgres None]"
proof -
  let ?w1 = "fresh_world\<lparr>environ := [''DATABASE_URL'' \<mapsto> ''postgresql://nowhere'']\<rparr>"
  let ?w2 = "fresh_world\<lparr>environ := Map.empty\<rparr>"
  have a1: "Postgres_init (pg as_record) (environ ?w1 ''DATABASE_URL'') (db ?w1)
      = Inl ConnectionError"
    by (simp add: pg_init_def fresh_world_def example_url_def)
  have a2: "Postgres_init (pg as_record) (environ ?w2 ''DATABASE_URL'') (db ?w2)
      = Inl MissingURL"
    by (simp add: pg_init_def)
  have tr: "new_events (fresh_world\<lparr>environ := env\<rparr>) w' = trace w'"
    for env and w' :: "pgstore world"
    by (simp add: new_events_def fresh_world_def)
  from startup_dependency [OF a1, of "''__main__''"]
    startup_dependency [OF a2, of "''__main__''"] a1
  show ?thesis by (simp add: tr)
qed

text \<open>
  C4 as stated fails in its first half: with \<open>DATABASE_URL\<close> not set, the module calls
  \<open>Postgres(None)\<close>; a gateway that then connects with its defaults lets the start run
  both statements and enter \<open>app.run\<close>.
\<close>

theorem startup_dependency_counterexample:
  "environ unset_world ''DATABASE_URL'' = None
   \<and> fst (project_init (pg_defaults as_value) ''__main__'' unset_world)
     = Serving \<lparr>SQLALCHEMY_DATABASE_URI = None, connection = Conn []\<rparr>
   \<and> trace (snd (project_init (pg_defaults as_value) ''__main__'' unset_world))
     = [EvEnvironGet ''DATABASE_URL'', EvPostgres None,
        EvRun ''CREATE TABLE users (name text)'',
        EvRun ''INSERT INTO users VALUES ('maggie simpson')'',
        EvAppRun]
   \<and> EvAppRun \<in> set (trace (snd (project_init (pg_defaults as_value) ''__main__'' unset_world)))"
proof -
  have c: "Postgres_init (pg_defaults as_value) (environ unset_world ''DATABASE_URL'')
        (db unset_world) = Inr (Conn [])"
    by (simp add: pg_defaults_def pg_init_defaults_def pg_init_def unset_world_def)
  have r1: "Postgres_run (pg_defaults as_value) (Conn []) create_stmt (db unset_world)
      = Inr \<lparr>accepts = (\<lambda>u. True), users_table = Some []\<rparr>"
    by (simp add: pg_defaults_def pg_run_create unset_world_def)
  have r2: "Postgres_run (pg_defaults as_value) (Conn []) insert_stmt
        \<lparr>accepts = (\<lambda>u. True), users_table = Some []\<rparr>
      = Inr \<lparr>accepts = (\<lambda>u. True), users_table = Some [seed_name]\<rparr>"
    by (simp add: pg_defaults_def pg_run_insert)
  have env: "environ unset_world ''DATABASE_URL'' = None" "trace unset_world = []"
    by (simp_all add: unset_world_def)
  from project_init_succeeds [OF c r1 r2, of "''__main__''"] env show ?thesis
    by (simp add: create_stmt_def insert_stmt_def)
qed

subsection \<open>C5: a failing statement ends the start\<close>

text \<open>
  C5. Once the connection is built, if the \<open>CREATE TABLE\<close> fails, or it succeeds and the
  \<open>INSERT\<close> fails, the start ends with that exception at the failing statement: nothing
  catches it, no later statement is run, and \<open>app.run\<close> is never called.
\<close>

theorem startup_statement_error:
  assumes "Postgres_init g (environ w ''DATABASE_URL'') (db w) = Inr c"
    and "Postgres_run g c create_stmt (db w) = Inl e
       \<or> (\<exists>s1. Postgres_run g c create_stmt (db w) = Inr s1
              \<and> Postgres_run g c insert_stmt s1 = Inl e)"
  shows "fst (project_init g nm w) = Crashed e
       \<and> EvAppRun \<notin> set (new_events w (snd (project_init g nm w)))
       \<and> new_events w (snd (project_init g nm w)) =
            [EvEnvironGet ''DATABASE_URL'', EvPostgres (environ w ''DATABASE_URL''),
             EvRun create_stmt]
            @ (case Postgres_run g c create_stmt (db w) of
                 Inl e' \<Rightarrow> []
               | Inr s1 \<Rightarrow> [EvRun insert_stmt])"
  using assms(2)
proof
  assume "Postgres_run g c create_stmt (db w) = Inl e"
  with assms(1) show ?thesis by (simp add: project_init_create_fails)
next
  assume "\<exists>s1. Postgres_run g c create_stmt (db w) = Inr s1
             \<and> Postgres_run g c insert_stmt s1 = Inl e"
  then obtain s1 where "Postgres_run g c create_stmt (db w) = Inr s1"
    and "Postgres_run g c insert_stmt s1 = Inl e"
    by blast
  with assms(1) show ?thesis by (simp add: project_init_insert_fails)
qed

text \<open>
  The second start against the database the first start left behind: the table exists,
  the \<open>CREATE TABLE\<close> fails and the process does not start.
\<close>

theorem startup_statement_error_witness:
  "Postgres_run (pg as_record) (Conn example_url) create_stmt
       (db (snd (project_init (pg as_record) ''__main__'' fresh_world))) = Inl StatementError
   \<and> fst (project_init (pg as_record) ''__main__''
            (snd (project_init (pg as_record) ''__main__'' fresh_world)))
       = Crashed StatementError
   \<and> new_events (snd (project_init (pg as_record) ''__main__'' fresh_world))
        (snd (project_init (pg as_record) ''__main__''
            (snd (project_init (pg as_record) ''__main__'' fresh_world))))
       = [EvEnvironGet ''DATABASE_URL'', EvPostgres (Some example_url), EvRun create_stmt]"
proof -
  let ?w = "snd (project_init (pg as_record) ''__main__'' fresh_world)"
  have c: "Postgres_init (pg as_record) (environ ?w ''DATABASE_URL'') (db ?w)
      = Inr (Conn example_url)"
    by (simp add: fresh_world_start pg_init_def)
  have r: "Postgres_run (pg as_record) (Conn example_url) create_stmt (db ?w)
      = Inl StatementError"
    by (simp add: fresh_world_start pg_run_create)
  then have "Postgres_run (pg as_record) (Conn example_url) create_stmt (db ?w)
        = Inl StatementError
      \<or> (\<exists>s1. Postgres_run (pg as_record) (Conn example_url) create_stmt (db ?w) = Inr s1
             \<and> Postgres_run (pg as_record) (Conn example_url) insert_stmt s1
                = Inl StatementError)"
    by simp
  from startup_statement_error [OF c this, of "''__main__''"] r
  have "fst (project_init (pg as_record) ''__main__'' ?w) = Crashed StatementError
      \<and> new_events ?w (snd (project_init (pg as_record) ''__main__'' ?w))
        = [EvEnvironGet ''DATABASE_URL'', EvPostgres (environ ?w ''DATABASE_URL''),
           EvRun create_stmt]"
    by (simp add: stmts_distinct)
  moreover have "environ ?w ''DATABASE_URL'' = Some example_url"
    by (simp add: fresh_world_start)
  ultimately show ?thesis using r by simp
qed

subsection \<open>C6: the seed row and restarts\<close>

text \<open>
  C6, as the code has it, on the reference database. A start that does not fail appends
  exactly one row \<open>maggie simpson\<close> to the table; a start that fails appends none. A start
  does not fail only when the table did not exist before it: against a database that
  already holds the table the \<open>CREATE TABLE\<close> fails first and the \<open>INSERT\<close> is never
  reached.
\<close>

theorem seed_row_per_start:
  "user_rows (db (snd (project_init (pg back_as) nm w))) =
     (if is_Crashed (fst (project_init (pg back_as) nm w)) then user_rows (db w)
      else user_rows (db w) @ [''maggie simpson''])
   \<and> (users_table (db w) = None \<or> is_Crashed (fst (project_init (pg back_as) nm w)))"
proof (cases "is_Crashed (fst (project_init (pg back_as) nm w))")
  case True
  then show ?thesis by (simp add: pg_start_db)
next
  case False
  then have "users_table (db w) = None"
    by (rule pg_start_needs_no_table)
  with False show ?thesis
    by (simp add: pg_start_db user_rows_def seed_name_def)
qed

text \<open>
  C6 as stated fails: the second start against the same database fails at the
  \<open>CREATE TABLE\<close>, does not run the \<open>INSERT\<close>, and leaves one row in the table, not two.
\<close>

theorem seed_row_per_start_counterexample:
  "user_rows (db (snd (project_init (pg as_record) ''__main__'' fresh_world)))
     = [''maggie simpson'']
   \<and> fst (project_init (pg as_record) ''__main__''
            (snd (project_init (pg as_record) ''__main__'' fresh_world)))
     = Crashed StatementError
   \<and> EvRun insert_stmt \<notin> set (new_events
        (snd (project_init (pg as_record) ''__main__'' fresh_world))
        (snd (project_init (pg as_record) ''__main__''
            (snd (project_init (pg as_record) ''__main__'' fresh_world)))))
   \<and> user_rows (db (snd (project_init (pg as_record) ''__main__''
            (snd (project_init (pg as_record) ''__main__'' fresh_world)))))
     = [''maggie simpson'']
   \<and> length (user_rows (db (snd (project_init (pg as_record) ''__main__''
            (snd (project_init (pg as_record) ''__main__'' fresh_world))))))
     \<noteq> length (user_rows (db (snd (project_init (pg as_record) ''__main__'' fresh_world)))) + 1"
proof -
  let ?w = "snd (project_init (pg as_record) ''__main__'' fresh_world)"
  have c: "Postgres_init (pg as_record) (environ ?w ''DATABASE_URL'') (db ?w)
      = Inr (Conn example_url)"
    by (simp add: fresh_world_start pg_init_def)
  have r: "Postgres_run (pg as_record) (Conn example_url) create_stmt (db ?w)
      = Inl StatementError"
    by (simp add: fresh_world_start pg_run_create)
  have rows: "user_rows (db ?w) = [''maggie simpson'']"
    by (simp add: fresh_world_start user_rows_def seed_name_def)
  from project_init_create_fails [OF c r, of "''__main__''"] rows show ?thesis
    by (simp add: stmts_distinct)
qed

subsection \<open>C7: reading twice\<close>

text \<open>
  C7. For every gateway, connection and state of the world: when nothing was written
  between two successive requests to \<open>GET /users\<close> (the database is, after the first,
  as it was before it), the second response is the first one, and so lists the same
  multiset of records.
\<close>

theorem idempotent_read:
  assumes "db (snd (flask_get g gl ''/users'' w)) = db w"
  shows "fst (flask_get g gl ''/users'' (snd (flask_get g gl ''/users'' w)))
           = fst (flask_get g gl ''/users'' w)
       \<and> records (fst (flask_get g gl ''/users'' (snd (flask_get g gl ''/users'' w))))
           = records (fst (flask_get g gl ''/users'' w))"
  using flask_get_same_db [OF assms, of g gl "''/users''"] by simp

theorem idempotent_read_witness:
  "db (snd (flask_get (pg as_record) example_globals ''/users''
         (snd (project_init (pg as_record) ''__main__'' fresh_world))))
     = db (snd (project_init (pg as_record) ''__main__'' fresh_world))
   \<and> records (fst (flask_get (pg as_record) example_globals ''/users''
         (snd (flask_get (pg as_record) example_globals ''/users''
            (snd (project_init (pg as_record) ''__main__'' fresh_world))))))
     = {#VDict [(''name'', VStr ''maggie simpson'')]#}
   \<and> records (fst (flask_get (pg as_record) example_globals ''/users''
         (snd (project_init (pg as_record) ''__main__'' fresh_world))))
     = {#VDict [(''name'', VStr ''maggie simpson'')]#}"
proof -
  let ?w = "snd (project_init (pg as_record) ''__main__'' fresh_world)"
  have same: "db (snd (flask_get (pg as_record) example_globals ''/users'' ?w)) = db ?w"
    by (rule pg_flask_get_db)
  have "Postgres_all (pg as_record) (connection example_globals) select_stmt (db ?w)
      = (Inr [VDict [(''name'', VStr ''maggie simpson'')]], db ?w)"
    by (simp add: fresh_world_start pg_all_select as_record_def seed_name_def)
  from flask_get_users_ok [OF this]
  have first: "records (fst (flask_get (pg as_record) example_globals ''/users'' ?w))
      = {#VDict [(''name'', VStr ''maggie simpson'')]#}"
    by simp
  from idempotent_read [OF same] same first show ?thesis by simp
qed

subsection \<open>C8: the read route writes nothing\<close>

text \<open>
  C8. For every gateway, \<open>n\<close> successive requests to \<open>GET /users\<close> perform \<open>n\<close> times
  the query \<open>SELECT * FROM users;\<close> and no other library call. On the reference database
  they leave the database as it was, and with it the number of rows of the table.
\<close>

theorem read_route_no_mutation:
  "new_events w (after_requests g gl (replicate n ''/users'') w)
     = replicate n (EvAll ''SELECT * FROM users;'')
   \<and> db (after_requests (pg back_as) gl' (replicate n ''/users'') w') = db w'
   \<and> length (user_rows (db (after_requests (pg back_as) gl' (replicate n ''/users'') w')))
     = length (user_rows (db w'))"
proof -
  have "new_events w (after_requests g gl (replicate n ''/users'') w)
      = replicate n (EvAll select_stmt)"
    by (simp add: new_events_def after_requests_users_trace)
  then show ?thesis
    by (simp add: pg_after_requests_db select_stmt_def)
qed

subsection \<open>C9: a failing query\<close>

text \<open>
  C9. If the listing query fails, its exception leaves the view; the client gets a
  response with status 500 and no document, and the request has performed the query
  once and nothing else.
\<close>

theorem query_error_surfaces:
  assumes "Postgres_all g (connection gl) select_stmt (db w) = (Inl e, s)"
  shows "fst (index g gl w) = Inl e
       \<and> fst (flask_get g gl ''/users'' w) = Response 500 None
       \<and> new_events w (snd (flask_get g gl ''/users'' w)) = [EvAll ''SELECT * FROM users;'']"
  using index_raises [OF assms] flask_get_users_raises [OF assms]
  by (simp add: select_stmt_def)

text \<open>A request that reaches a database whose table does not exist.\<close>

theorem query_error_surfaces_witness:
  "Postgres_all (pg as_record) (connection example_globals) select_stmt (db fresh_world)
     = (Inl StatementError, db fresh_world)
   \<and> fst (index (pg as_record) example_globals fresh_world) = Inl StatementError
   \<and> fst (flask_get (pg as_record) example_globals ''/users'' fresh_world) = Response 500 None
   \<and> trace (snd (flask_get (pg as_record) example_globals ''/users'' fresh_world))
     = [EvAll ''SELECT * FROM users;'']"
proof -
  have q: "Postgres_all (pg as_record) (connection example_globals) select_stmt (db fresh_world)
      = (Inl StatementError, db fresh_world)"
    by (simp add: pg_all_select fresh_world_def)
  have tr: "new_events fresh_world w' = trace w'" for w' :: "pgstore world"
    by (simp add: new_events_def fresh_world_def)
  from query_error_surfaces [OF q] q show ?thesis
    by (simp add: tr)
qed

subsection \<open>C10: the environment is read once\<close>

text \<open>
  C10. Every execution of the module's top level, however it ends, reads the
  environment exactly once, and what it reads is \<open>DATABASE_URL\<close>. A request reads
  nothing from the environment, and replacing the whole environment before a request
  changes neither its response nor what it does to the database and the trace: the
  query goes through the connection built at the start.
\<close>

theorem environ_read_once:
  "filter is_environ_read (new_events w (snd (project_init g nm w)))
     = [EvEnvironGet ''DATABASE_URL'']
   \<and> filter is_environ_read (new_events w' (snd (flask_get g gl path w'))) = []
   \<and> flask_get g gl path (w'\<lparr>environ := env'\<rparr>)
     = (fst (flask_get g gl path w'), (snd (flask_get g gl path w'))\<lparr>environ := env'\<rparr>)"
proof -
  obtain evs where "trace (snd (project_init g nm w)) = trace w @ EvEnvironGet ''DATABASE_URL'' # evs"
    and "filter is_environ_read evs = []"
    using project_init_trace [of g nm w] by blast
  then have start: "filter is_environ_read (new_events w (snd (project_init g nm w)))
      = [EvEnvironGet ''DATABASE_URL'']"
    by (simp add: new_events_def)
  have request: "filter is_environ_read (new_events w' (snd (flask_get g gl path w'))) = []"
    by (simp add: new_events_def flask_get_trace)
  have "flask_get g gl path (w'\<lparr>environ := env'\<rparr>)
      = (fst (flask_get g gl path w'), (snd (flask_get g gl path w'))\<lparr>environ := env'\<rparr>)"
    by (simp add: flask_get_def index_def connection_all_def emit_def
        split: prod.splits sum.splits)
  with start request show ?thesis by simp
qed

end
